theory Spec2Isabelle
  imports Main "HOL-Library.Multiset"
begin

section \<open>Strings\<close>

text \<open>
  The router builds the slug and the tag names with \<^verbatim>\<open>title.split(" ")\<close> and
  \<^verbatim>\<open>tagArray.join("-")\<close>. A string is a list of characters. \<open>split c s\<close> cuts
  \<open>s\<close> at every occurrence of the separator \<open>c\<close>, as the JavaScript method does with a
  one-character separator: the empty string gives one empty piece, and two separators in
  a row give an empty piece between them.
\<close>

fun split :: "char \<Rightarrow> string \<Rightarrow> string list" where
  "split c [] = [[]]"
| "split c (x # xs) =
     (if x = c then [] # split c xs
      else (case split c xs of [] \<Rightarrow> [[x]] | w # ws \<Rightarrow> (x # w) # ws))"

fun join :: "string \<Rightarrow> string list \<Rightarrow> string" where
  "join sep [] = []"
| "join sep [w] = w"
| "join sep (w # v # ws) = w @ sep @ join sep (v # ws)"

text \<open>
  \<^verbatim>\<open>"-" + Date.now()\<close> appends the decimal digits of an integer number of milliseconds.
\<close>

definition digit :: "nat \<Rightarrow> char" where
  "digit d = ''0123456789'' ! (d mod 10)"

fun string_of_nat :: "nat \<Rightarrow> string" where
  "string_of_nat n =
     (if n < 10 then [digit n] else string_of_nat (n div 10) @ [digit (n mod 10)])"

definition string_of_int :: "int \<Rightarrow> string" where
  "string_of_int i =
     (if i < 0 then CHR ''-'' # string_of_nat (nat (- i)) else string_of_nat (nat i))"

section \<open>The image container\<close>

text \<open>
  The component keeps one piece of state, \<^verbatim>\<open>imageLoadingError\<close>, initially false.
  It renders a figure whose only child is either a plain \<^verbatim>\<open>img\<close> with the fixed avatar
  address, or the framework's \<^verbatim>\<open>Image\<close> with \<^verbatim>\<open>image || fallback\<close> and the error
  handler attached. The class-name combinator \<^verbatim>\<open>cn\<close> is imported from elsewhere and is
  a parameter here.
\<close>

datatype gender = Male | Female

record props =
  className :: string
  gender :: gender
  image_prop :: string

datatype element =
    Img (src: string)
  | NextImage (src: string)

record figure =
  fig_className :: string
  fig_child :: element

definition fallback_avatar :: string where
  "fallback_avatar = ''https://api.dicebear.com/6.x/adventurer-neutral/svg?seed=Tigger''"

definition useState_initial :: bool where
  "useState_initial = False"

definition handleImageLoadingError :: "bool \<Rightarrow> bool" where
  "handleImageLoadingError imageLoadingError = True"

definition ImageContainer :: "(string \<Rightarrow> string \<Rightarrow> string) \<Rightarrow> props \<Rightarrow> bool \<Rightarrow> figure" where
  "ImageContainer cn p imageLoadingError =
     \<lparr> fig_className =
         cn ''relative flex cursor-pointer items-center justify-center bg-white transition-all duration-500 hover:bg-blue-400''
            (className p),
       fig_child =
         (if imageLoadingError then Img fallback_avatar
          else NextImage (if image_prop p \<noteq> [] then image_prop p else fallback_avatar)) \<rparr>"

text \<open>
  The only event the figure reacts to is \<^verbatim>\<open>onError\<close>, and only the framework's
  \<^verbatim>\<open>Image\<close> carries the handler; the plain \<^verbatim>\<open>img\<close> has none.
\<close>

definition onError :: "figure \<Rightarrow> bool \<Rightarrow> bool" where
  "onError f imageLoadingError =
     (case fig_child f of
        NextImage _ \<Rightarrow> handleImageLoadingError imageLoadingError
      | Img _ \<Rightarrow> imageLoadingError)"

section \<open>The persistence layer\<close>

text \<open>
  The router talks to a relational store through an object-relational mapper. The store
  is a record of tables, each a list of rows in insertion order. The schema of the
  tables is not among the sources, so a row carries the columns the router reads or
  writes and the foreign keys its queries follow: a post refers to its author and to
  its category, and a tag, a comment and a reaction each refer to a post. A tag is
  written by a nested \<^verbatim>\<open>createMany\<close> under the post, which the mapper offers only for
  rows that carry the foreign key of their parent. A category is identified by its
  \<^verbatim>\<open>category_name\<close>, the unique key the router selects it by.
\<close>

type_synonym ident = string

record user_row =
  user_id :: ident
  user_name :: "string option"
  user_email :: "string option"
  user_image :: "string option"
  user_gender :: "string option"

record category_row =
  category_name :: string

record post_row =
  post_id :: ident
  post_title :: string
  post_subtitle :: string
  post_body :: string
  post_image :: "string option"
  post_slug :: string
  post_authorId :: ident
  post_category :: string
  post_createdAt :: int

record tag_row =
  tag_name :: string
  tag_postId :: "ident option"

record comment_row =
  comment_id :: ident
  comment_postId :: "ident option"

record reaction_row =
  reaction_type :: string
  reaction_userId :: ident
  reaction_postId :: "ident option"

record db =
  users :: "user_row list"
  categories :: "category_row list"
  posts :: "post_row list"
  tags :: "tag_row list"
  comments :: "comment_row list"
  reactions :: "reaction_row list"

text \<open>
  Two facts of the schema that the router's behaviour depends on and the sources do not
  show are parameters: whether \<^verbatim>\<open>slug\<close> and \<^verbatim>\<open>tag_name\<close> are declared unique.
\<close>

record schema =
  slug_unique :: bool
  tag_name_unique :: bool

text \<open>
  What a call reads from outside the store: the clock of the server
  (\<^verbatim>\<open>Date.now()\<close>), the default the store gives \<^verbatim>\<open>createdAt\<close>, and the
  identifier the store generates for a new post.
\<close>

record env =
  date_now :: int
  db_now :: int
  new_id :: ident

text \<open>
  A call ends with a result or with an error: one the resolver throws itself, or one
  the mapper throws, which the resolver does not catch and the caller gets in place of
  a result.
\<close>

datatype prisma_error = RecordNotFound | UniqueConstraint | ForeignKeyConstraint

datatype trpc_code = UNAUTHORIZED | BAD_REQUEST

datatype error = TRPCError trpc_code | PrismaError prisma_error

record session =
  session_user_id :: ident

record ctx =
  ctx_session :: "session option"

record 'a response =
  status :: nat
  message :: "string option"
  data :: 'a

subsection \<open>Creating a post\<close>

text \<open>
  \<^verbatim>\<open>connectOrCreate\<close> looks the category up by its unique name; it connects the post
  to the row found, and creates the row only when there is none.
\<close>

definition connectOrCreate :: "string \<Rightarrow> category_row list \<Rightarrow> category_row \<times> category_row list" where
  "connectOrCreate name cs =
     (case find (\<lambda>c. category_name c = name) cs of
        Some c \<Rightarrow> (c, cs)
      | None \<Rightarrow> (let c = \<lparr> category_name = name \<rparr> in (c, cs @ [c])))"

text \<open>
  The nested \<^verbatim>\<open>createMany\<close> inserts one row for every element of its data, each
  attached to the parent post. It never looks for an existing row.
\<close>

definition createMany :: "ident \<Rightarrow> string list \<Rightarrow> tag_row list \<Rightarrow> tag_row list" where
  "createMany parent names ts =
     ts @ map (\<lambda>n. \<lparr> tag_name = n, tag_postId = Some parent \<rparr>) names"

record post_create_data =
  d_title :: string
  d_category :: string
  d_subtitle :: string
  d_image :: "string option"
  d_body :: string
  d_user :: ident
  d_slug :: string
  d_tags :: "string list"

text \<open>
  \<^verbatim>\<open>post.create\<close> with its nested writes is one transaction: it fails as a whole,
  leaving the store as it was. The user to connect is looked up before the post is
  written, so a missing user is reported first; then the row of the post is inserted,
  which a repeated unique column refuses; the tags are inserted last. It returns the
  new row with its category (\<^verbatim>\<open>include: { category: true }\<close>).
\<close>

definition post_create ::
  "schema \<Rightarrow> env \<Rightarrow> post_create_data \<Rightarrow> db \<Rightarrow> prisma_error + (post_row \<times> category_row \<times> db)" where
  "post_create sch e d s =
     (if d_user d \<notin> set (map user_id (users s)) then Inl RecordNotFound
      else if new_id e \<in> set (map post_id (posts s)) then Inl UniqueConstraint
      else if slug_unique sch \<and> d_slug d \<in> set (map post_slug (posts s)) then Inl UniqueConstraint
      else if tag_name_unique sch \<and>
              (\<not> distinct (d_tags d) \<or> set (d_tags d) \<inter> set (map tag_name (tags s)) \<noteq> {})
        then Inl UniqueConstraint
      else
        (let (c, cs) = connectOrCreate (d_category d) (categories s);
             p = \<lparr> post_id = new_id e, post_title = d_title d, post_subtitle = d_subtitle d,
                   post_body = d_body d, post_image = d_image d, post_slug = d_slug d,
                   post_authorId = d_user d, post_category = category_name c,
                   post_createdAt = db_now e \<rparr>
         in Inr (p, c,
                 s\<lparr> categories := cs, posts := posts s @ [p],
                    tags := createMany (new_id e) (d_tags d) (tags s) \<rparr>)))"

subsection \<open>Sessions\<close>

text \<open>
  Modelled from the spec: \<^verbatim>\<open>protectedProcedure\<close>, imported by the router from the
  module that sets the remote-procedure layer up, which is not among the sources. The
  spec speaks of authenticated user sessions: a protected procedure runs its resolver
  with the session of the caller, and answers a call that has none with
  \<^verbatim>\<open>UNAUTHORIZED\<close> without running the resolver.
\<close>

definition protectedProcedure :: "ctx \<Rightarrow> (session \<Rightarrow> error + 'a) \<Rightarrow> error + 'a" where
  "protectedProcedure c resolver =
     (case ctx_session c of
        None \<Rightarrow> Inl (TRPCError UNAUTHORIZED)
      | Some sess \<Rightarrow> resolver sess)"

subsection \<open>The procedure that creates a post\<close>

record CreateNewBlog_input =
  in_title :: string
  in_subtitle :: string
  in_body :: string
  in_image :: "string option"
  in_category :: string

text \<open>\<^verbatim>\<open>image || null\<close>: an absent or empty string is falsy.\<close>

definition or_null :: "string option \<Rightarrow> string option" where
  "or_null v = (case v of None \<Rightarrow> None | Some x \<Rightarrow> (if x = [] then None else Some x))"

definition createNewBlog ::
  "schema \<Rightarrow> env \<Rightarrow> ctx \<Rightarrow> CreateNewBlog_input \<Rightarrow> db
     \<Rightarrow> error + ((post_row \<times> category_row) response \<times> db)" where
  "createNewBlog sch e c input s =
     protectedProcedure c (\<lambda>sess.
       let tagArray = split CHR '' '' (in_title input);
           slug = join ''-'' tagArray @ ''-'' @ string_of_int (date_now e);
           authorId = session_user_id sess
       in case post_create sch e
                 \<lparr> d_title = in_title input, d_category = in_category input,
                   d_subtitle = in_subtitle input, d_image = or_null (in_image input),
                   d_body = in_body input, d_user = authorId, d_slug = slug,
                   d_tags = tagArray \<rparr> s of
            Inl err \<Rightarrow> Inl (PrismaError err)
          | Inr (post, cat, s') \<Rightarrow>
              Inr (\<lparr> status = 201, message = None, data = (post, cat) \<rparr>, s'))"

subsection \<open>Reading posts\<close>

text \<open>
  \<^verbatim>\<open>findMany\<close> keeps the rows that satisfy \<^verbatim>\<open>where\<close>, orders them by
  \<^verbatim>\<open>createdAt\<close> descending, and cuts the result to \<^verbatim>\<open>take\<close> rows when a limit
  is given. Rows with equal \<^verbatim>\<open>createdAt\<close> keep the order of the table.
\<close>

definition orderBy_createdAt_desc :: "post_row list \<Rightarrow> post_row list" where
  "orderBy_createdAt_desc ps = sort_key (\<lambda>p. - post_createdAt p) ps"

definition findMany :: "(post_row \<Rightarrow> bool) \<Rightarrow> nat option \<Rightarrow> db \<Rightarrow> post_row list" where
  "findMany wh tk s =
     (let rows = orderBy_createdAt_desc (filter wh (posts s))
      in case tk of None \<Rightarrow> rows | Some n \<Rightarrow> take n rows)"

definition findFirst :: "(post_row \<Rightarrow> bool) \<Rightarrow> db \<Rightarrow> post_row option" where
  "findFirst wh s =
     (case orderBy_createdAt_desc (filter wh (posts s)) of [] \<Rightarrow> None | p # _ \<Rightarrow> Some p)"

definition count_comment :: "db \<Rightarrow> post_row \<Rightarrow> nat" where
  "count_comment s p = length (filter (\<lambda>c. comment_postId c = Some (post_id p)) (comments s))"

definition count_reaction :: "db \<Rightarrow> post_row \<Rightarrow> nat" where
  "count_reaction s p = length (filter (\<lambda>r. reaction_postId r = Some (post_id p)) (reactions s))"

definition category_of :: "db \<Rightarrow> post_row \<Rightarrow> category_row option" where
  "category_of s p = find (\<lambda>c. category_name c = post_category p) (categories s)"

record blog_summary =
  bs_id :: ident
  bs_image :: "string option"
  bs_title :: string
  bs_subtitle :: string
  bs_createdAt :: int
  bs_category :: "category_row option"
  bs_count_comment :: nat
  bs_count_reaction :: nat

definition select_summary :: "db \<Rightarrow> post_row \<Rightarrow> blog_summary" where
  "select_summary s p =
     \<lparr> bs_id = post_id p, bs_image = post_image p, bs_title = post_title p,
       bs_subtitle = post_subtitle p, bs_createdAt = post_createdAt p,
       bs_category = category_of s p,
       bs_count_comment = count_comment s p, bs_count_reaction = count_reaction s p \<rparr>"

definition getAllBlogs :: "ctx \<Rightarrow> db \<Rightarrow> error + blog_summary list response" where
  "getAllBlogs c s =
     protectedProcedure c (\<lambda>sess.
       let blogs = map (select_summary s) (findMany (\<lambda>p. True) None s)
       in Inr \<lparr> status = 200, message = None, data = blogs \<rparr>)"

text \<open>
  \<^verbatim>\<open>where: { category: { category_name: ... } }\<close> keeps the posts whose category row
  has the given name.
\<close>

definition where_category :: "db \<Rightarrow> string \<Rightarrow> post_row \<Rightarrow> bool" where
  "where_category s name p =
     (case category_of s p of None \<Rightarrow> False | Some cat \<Rightarrow> category_name cat = name)"

text \<open>
  The input of the procedure is checked against \<^verbatim>\<open>z.nativeEnum(CategoryEnum)\<close>
  before the resolver runs, and after the session: a name that is not a value of the
  enumeration is answered \<^verbatim>\<open>BAD_REQUEST\<close>. The enumeration is declared outside the
  sources; its values are a parameter.
\<close>

definition getBlogsByCategory ::
  "string list \<Rightarrow> ctx \<Rightarrow> string \<Rightarrow> db \<Rightarrow> error + blog_summary list response" where
  "getBlogsByCategory CategoryEnum c category_name_input s =
     protectedProcedure c (\<lambda>sess.
       if category_name_input \<notin> set CategoryEnum then Inl (TRPCError BAD_REQUEST)
       else
         let blogs = map (select_summary s)
                       (findMany (where_category s category_name_input) (Some 10) s)
         in Inr \<lparr> status = 200, message = None, data = blogs \<rparr>)"

record user_brief =
  ub_id :: ident
  ub_image :: "string option"
  ub_name :: "string option"

record reaction_sel =
  rs_type :: string
  rs_user :: "user_brief option"

record blog_detail =
  bd_post :: post_row
  bd_user :: "user_row option"
  bd_reaction :: "reaction_sel list"

definition select_reaction :: "db \<Rightarrow> reaction_row \<Rightarrow> reaction_sel" where
  "select_reaction s r =
     \<lparr> rs_type = reaction_type r,
       rs_user = map_option (\<lambda>u. \<lparr> ub_id = user_id u, ub_image = user_image u, ub_name = user_name u \<rparr>)
                   (find (\<lambda>u. user_id u = reaction_userId r) (users s)) \<rparr>"

definition include_detail :: "db \<Rightarrow> post_row \<Rightarrow> blog_detail" where
  "include_detail s p =
     \<lparr> bd_post = p,
       bd_user = find (\<lambda>u. user_id u = post_authorId p) (users s),
       bd_reaction = map (select_reaction s)
                       (filter (\<lambda>r. reaction_postId r = Some (post_id p)) (reactions s)) \<rparr>"

definition getBlogById :: "ctx \<Rightarrow> ident \<Rightarrow> db \<Rightarrow> error + blog_detail option response" where
  "getBlogById c id_input s =
     protectedProcedure c (\<lambda>sess.
       let blog = map_option (include_detail s) (findFirst (\<lambda>p. post_id p = id_input) s)
       in Inr \<lparr> status = 200, message = None, data = blog \<rparr>)"

record blog_with_count =
  bc_post :: post_row
  bc_count_reaction :: nat
  bc_count_comment :: nat

definition getBlogByUserId :: "ctx \<Rightarrow> ident \<Rightarrow> db \<Rightarrow> error + blog_with_count list response" where
  "getBlogByUserId c userId s =
     protectedProcedure c (\<lambda>sess.
       let blogs = map (\<lambda>p. \<lparr> bc_post = p, bc_count_reaction = count_reaction s p,
                               bc_count_comment = count_comment s p \<rparr>)
                     (findMany (\<lambda>p. post_authorId p = userId) None s)
       in Inr \<lparr> status = 200, message = Some ''BLOGS FOUND SUCCESSFULLY'', data = blogs \<rparr>)"

subsection \<open>Updating a post\<close>

text \<open>
  The fields of the update schema are not among the sources. The input is the
  identifier and the rest, and the rest is modelled by what it does to the columns of
  a row; the identifier is taken out of the data, so the row keeps it.
\<close>

record UpdateBlog_input =
  upd_id :: ident
  upd_rest :: "post_row \<Rightarrow> post_row"

definition post_update :: "ident \<Rightarrow> (post_row \<Rightarrow> post_row) \<Rightarrow> db \<Rightarrow> prisma_error + (post_row \<times> db)" where
  "post_update i f s =
     (case find (\<lambda>p. post_id p = i) (posts s) of
        None \<Rightarrow> Inl RecordNotFound
      | Some p \<Rightarrow>
          (let p' = (f p)\<lparr> post_id := i \<rparr>
           in Inr (p', s\<lparr> posts := map (\<lambda>q. if post_id q = i then p' else q) (posts s) \<rparr>)))"

definition updateBlogById :: "ctx \<Rightarrow> UpdateBlog_input \<Rightarrow> db \<Rightarrow> error + (post_row response \<times> db)" where
  "updateBlogById c input s =
     protectedProcedure c (\<lambda>sess.
       case post_update (upd_id input) (upd_rest input) s of
         Inl err \<Rightarrow> Inl (PrismaError err)
       | Inr (blog, s') \<Rightarrow>
           Inr (\<lparr> status = 201, message = Some ''BLOG UPDATED SUCCESSFULLY'', data = blog \<rparr>, s'))"

subsection \<open>Deleting a post\<close>

text \<open>
  What the store does with the rows that refer to a deleted post is the referential
  action the schema declares for each relation: delete them too, refuse the delete
  while there are any, or clear their reference.
\<close>

datatype ref_action = Cascade | Restrict | SetNull

record on_delete =
  od_comment :: ref_action
  od_reaction :: ref_action
  od_tag :: ref_action

definition refuses :: "ref_action \<Rightarrow> ('r \<Rightarrow> ident option) \<Rightarrow> ident \<Rightarrow> 'r list \<Rightarrow> bool" where
  "refuses a fk i rows = (a = Restrict \<and> Some i \<in> set (map fk rows))"

definition referential :: "ref_action \<Rightarrow> ('r \<Rightarrow> ident option) \<Rightarrow> ('r \<Rightarrow> 'r) \<Rightarrow> ident \<Rightarrow> 'r list \<Rightarrow> 'r list" where
  "referential a fk clear i rows =
     (case a of
        Cascade \<Rightarrow> filter (\<lambda>r. fk r \<noteq> Some i) rows
      | Restrict \<Rightarrow> rows
      | SetNull \<Rightarrow> map (\<lambda>r. if fk r = Some i then clear r else r) rows)"

text \<open>
  \<^verbatim>\<open>post.delete\<close> fails when no post has the identifier, and otherwise returns the
  deleted row with its comments (\<^verbatim>\<open>include: { comment: true }\<close>). The result is
  nullable for the resolver, which tests it.
\<close>

definition post_delete ::
  "on_delete \<Rightarrow> ident \<Rightarrow> db \<Rightarrow> prisma_error + ((post_row \<times> comment_row list) option \<times> db)" where
  "post_delete od i s =
     (case find (\<lambda>p. post_id p = i) (posts s) of
        None \<Rightarrow> Inl RecordNotFound
      | Some p \<Rightarrow>
          (if refuses (od_comment od) comment_postId i (comments s)
              \<or> refuses (od_reaction od) reaction_postId i (reactions s)
              \<or> refuses (od_tag od) tag_postId i (tags s)
           then Inl ForeignKeyConstraint
           else Inr (Some (p, filter (\<lambda>c. comment_postId c = Some i) (comments s)),
                     s\<lparr> posts := filter (\<lambda>q. post_id q \<noteq> i) (posts s),
                        comments := referential (od_comment od) comment_postId
                                      (\<lambda>r. r\<lparr> comment_postId := None \<rparr>) i (comments s),
                        reactions := referential (od_reaction od) reaction_postId
                                      (\<lambda>r. r\<lparr> reaction_postId := None \<rparr>) i (reactions s),
                        tags := referential (od_tag od) tag_postId
                                      (\<lambda>r. r\<lparr> tag_postId := None \<rparr>) i (tags s) \<rparr>)))"

text \<open>
  Modelled from the spec: the referential actions of the relations from comment,
  reaction and tag to post. They are declared in the schema of the store, which is not
  among the sources; the resolver itself only deletes the post. The spec speaks of
  cascading deletes, so each relation is taken to cascade.
\<close>

definition schema_on_delete :: on_delete where
  "schema_on_delete = \<lparr> od_comment = Cascade, od_reaction = Cascade, od_tag = Cascade \<rparr>"

text \<open>
  The resolver, for any referential actions the schema may declare.
\<close>

definition deleteBlogByBlogId :: "on_delete \<Rightarrow> ctx \<Rightarrow> ident \<Rightarrow> db \<Rightarrow> error + (unit response \<times> db)" where
  "deleteBlogByBlogId od c id_input s =
     protectedProcedure c (\<lambda>sess.
       case post_delete od id_input s of
         Inl err \<Rightarrow> Inl (PrismaError err)
       | Inr (deleteBlog, s') \<Rightarrow>
           (case deleteBlog of
              None \<Rightarrow> Inl (TRPCError BAD_REQUEST)
            | Some _ \<Rightarrow>
                Inr (\<lparr> status = 201, message = Some ''BLOG DELETED SUCCESSFULLY'', data = () \<rparr>, s')))"

subsection \<open>The router\<close>

text \<open>
  The router is the table of its procedures: the name of each, the procedure builder
  it is declared with, and whether it is a query or a mutation.
\<close>

datatype builder = ProtectedProcedure | PublicProcedure

datatype kind = Query | Mutation

definition blogRouter :: "(string \<times> builder \<times> kind) list" where
  "blogRouter =
     [(''createNewBlog'', ProtectedProcedure, Mutation),
      (''getAllBlogs'', ProtectedProcedure, Query),
      (''getBlogsByCategory'', ProtectedProcedure, Query),
      (''getBlogById'', ProtectedProcedure, Query),
      (''getBlogByUserId'', ProtectedProcedure, Query),
      (''updateBlogById'', ProtectedProcedure, Mutation),
      (''deleteBlogByBlogId'', ProtectedProcedure, Mutation)]"

text \<open>
  A call runs the resolver behind the builder the procedure is declared with; a public
  procedure would run it whatever the session.
\<close>

definition call :: "builder \<Rightarrow> ctx \<Rightarrow> (session option \<Rightarrow> error + 'a) \<Rightarrow> error + 'a" where
  "call b c resolver =
     (case b of
        ProtectedProcedure \<Rightarrow> protectedProcedure c (\<lambda>sess. resolver (Some sess))
      | PublicProcedure \<Rightarrow> resolver (ctx_session c))"

section \<open>A concrete store\<close>

text \<open>
  A small store and a few calls, used to run the procedures on concrete inputs: one
  user, one category, one post with one tag, one comment and one reaction.
\<close>

definition ex_user :: user_row where
  "ex_user = \<lparr> user_id = ''u1'', user_name = Some ''Ann'', user_email = None,
               user_image = None, user_gender = None \<rparr>"

definition ex_post :: post_row where
  "ex_post = \<lparr> post_id = ''p0'', post_title = ''hello'', post_subtitle = ''first'',
               post_body = ''text'', post_image = None, post_slug = ''hello-1700000000000'',
               post_authorId = ''u1'', post_category = ''Tech'',
               post_createdAt = 1700000000000 \<rparr>"

definition ex_db :: db where
  "ex_db = \<lparr> users = [ex_user], categories = [\<lparr> category_name = ''Tech'' \<rparr>],
             posts = [ex_post],
             tags = [\<lparr> tag_name = ''hello'', tag_postId = Some ''p0'' \<rparr>],
             comments = [\<lparr> comment_id = ''c1'', comment_postId = Some ''p0'' \<rparr>],
             reactions = [\<lparr> reaction_type = ''like'', reaction_userId = ''u1'',
                            reaction_postId = Some ''p0'' \<rparr>] \<rparr>"

definition ex_ctx :: ctx where
  "ex_ctx = \<lparr> ctx_session = Some \<lparr> session_user_id = ''u1'' \<rparr> \<rparr>"

definition no_unique :: schema where
  "no_unique = \<lparr> slug_unique = False, tag_name_unique = False \<rparr>"

text \<open>
  A second post with the title of the first, created in the same millisecond, with an
  empty image, in the category that exists.
\<close>

definition ex_env :: env where
  "ex_env = \<lparr> date_now = 1700000000000, db_now = 1700000000005, new_id = ''p1'' \<rparr>"

definition ex_input :: CreateNewBlog_input where
  "ex_input = \<lparr> in_title = ''hello'', in_subtitle = ''again'', in_body = ''more'',
                in_image = Some [], in_category = ''Tech'' \<rparr>"

definition ex_new_post :: post_row where
  "ex_new_post = \<lparr> post_id = ''p1'', post_title = ''hello'', post_subtitle = ''again'',
               post_body = ''more'', post_image = None, post_slug = ''hello-1700000000000'',
               post_authorId = ''u1'', post_category = ''Tech'',
               post_createdAt = 1700000000005 \<rparr>"

definition ex_created :: "(post_row \<times> category_row) response" where
  "ex_created = \<lparr> status = 201, message = None,
                  data = (ex_new_post, \<lparr> category_name = ''Tech'' \<rparr>) \<rparr>"

definition ex_db_created :: db where
  "ex_db_created = ex_db
     \<lparr> posts := [ex_post, ex_new_post],
       tags := [\<lparr> tag_name = ''hello'', tag_postId = Some ''p0'' \<rparr>,
                \<lparr> tag_name = ''hello'', tag_postId = Some ''p1'' \<rparr>] \<rparr>"

text \<open>
  A post with two spaces in a row in its title, an image, and a category that does not
  exist yet.
\<close>

definition ex_env2 :: env where
  "ex_env2 = \<lparr> date_now = 1700000000123, db_now = 1700000000124, new_id = ''p2'' \<rparr>"

definition ex_input2 :: CreateNewBlog_input where
  "ex_input2 = \<lparr> in_title = ''my  post'', in_subtitle = ''sub'', in_body = ''body'',
                 in_image = Some ''https://img.example/1.png'', in_category = ''Life'' \<rparr>"

definition ex_new_post2 :: post_row where
  "ex_new_post2 = \<lparr> post_id = ''p2'', post_title = ''my  post'', post_subtitle = ''sub'',
               post_body = ''body'', post_image = Some ''https://img.example/1.png'',
               post_slug = ''my--post-1700000000123'',
               post_authorId = ''u1'', post_category = ''Life'',
               post_createdAt = 1700000000124 \<rparr>"

definition ex_created2 :: "(post_row \<times> category_row) response" where
  "ex_created2 = \<lparr> status = 201, message = None,
                   data = (ex_new_post2, \<lparr> category_name = ''Life'' \<rparr>) \<rparr>"

definition ex_db_created2 :: db where
  "ex_db_created2 = ex_db
     \<lparr> categories := [\<lparr> category_name = ''Tech'' \<rparr>, \<lparr> category_name = ''Life'' \<rparr>],
       posts := [ex_post, ex_new_post2],
       tags := [\<lparr> tag_name = ''hello'', tag_postId = Some ''p0'' \<rparr>,
                \<lparr> tag_name = ''my'', tag_postId = Some ''p2'' \<rparr>,
                \<lparr> tag_name = [], tag_postId = Some ''p2'' \<rparr>,
                \<lparr> tag_name = ''post'', tag_postId = Some ''p2'' \<rparr>] \<rparr>"

text \<open>The first call again, without the image field.\<close>

definition ex_input3 :: CreateNewBlog_input where
  "ex_input3 = ex_input \<lparr> in_image := None \<rparr>"

text \<open>A store with a comment on each of two posts.\<close>

definition ex_db_two :: db where
  "ex_db_two = ex_db_created
     \<lparr> comments := [\<lparr> comment_id = ''c1'', comment_postId = Some ''p0'' \<rparr>,
                    \<lparr> comment_id = ''c2'', comment_postId = Some ''p1'' \<rparr>,
                    \<lparr> comment_id = ''c3'', comment_postId = Some ''p0'' \<rparr>] \<rparr>"

text \<open>
  Twelve posts of one author in one category, a millisecond apart, and two posts of
  another author in another category, one newer than all of them and one in between.
\<close>

definition ex_user2 :: user_row where
  "ex_user2 = \<lparr> user_id = ''u2'', user_name = Some ''Bob'', user_email = None,
                user_image = None, user_gender = None \<rparr>"

definition ex_life_posts :: "post_row list" where
  "ex_life_posts =
     [ex_post \<lparr> post_id := ''q1'', post_authorId := ''u2'', post_category := ''Life'',
                post_createdAt := 1700000000003 \<rparr>,
      ex_post \<lparr> post_id := ''q0'', post_authorId := ''u2'', post_category := ''Life'',
                post_createdAt := 1700000000100 \<rparr>]"

definition ex_db_many :: db where
  "ex_db_many = ex_db
     \<lparr> users := [ex_user, ex_user2],
       categories := [\<lparr> category_name = ''Tech'' \<rparr>, \<lparr> category_name = ''Life'' \<rparr>],
       posts := ex_life_posts @
                map (\<lambda>k. ex_post \<lparr> post_id := CHR ''p'' # string_of_int k,
                                   post_createdAt := 1700000000000 + k \<rparr>)
                  [0, 1, 2, 3, 4, 5, 6, 7, 8, 9, 10, 11] \<rparr>"

definition ex_enum :: "string list" where
  "ex_enum = [''Tech'', ''Life'', ''Travel'']"

definition restrict_all :: on_delete where
  "restrict_all = \<lparr> od_comment = Restrict, od_reaction = Restrict, od_tag = Restrict \<rparr>"

section \<open>The image container: properties\<close>

text \<open>
  C7. Whatever the state, the rendered address is the fixed avatar when the error flag
  is set or the image property is the empty string, and the given image otherwise; the
  first render uses the given image when it is not empty; and once \<^verbatim>\<open>onError\<close> has
  fired on a render, the next render shows the fixed avatar.
\<close>

theorem ImageContainer_fallback:
  "src (fig_child (ImageContainer cn p e)) =
     (if e \<or> image_prop p = [] then fallback_avatar else image_prop p)
   \<and> src (fig_child (ImageContainer cn p useState_initial)) =
     (if image_prop p = [] then fallback_avatar else image_prop p)
   \<and> src (fig_child (ImageContainer cn p (onError (ImageContainer cn p False) False))) =
     fallback_avatar"
  by (simp add: ImageContainer_def onError_def handleImageLoadingError_def
      useState_initial_def)

section \<open>Strings: properties\<close>

lemma split_not_Nil: "split c s \<noteq> []"
  by (induction s) (auto split: list.splits)

lemma join_Cons: "ws \<noteq> [] \<Longrightarrow> join sep (w # ws) = w @ sep @ join sep ws"
  by (cases ws) simp_all

lemma join_Cons_Cons: "join sep ((x # w) # ws) = x # join sep (w # ws)"
  by (cases ws) simp_all

text \<open>
  Splitting at a character and joining with another replaces each occurrence of the
  first by the second, and changes nothing else.
\<close>

lemma join_split: "join [d] (split c s) = map (\<lambda>x. if x = c then d else x) s"
proof (induction s)
  case Nil
  show ?case by simp
next
  case (Cons x s)
  show ?case
  proof (cases "x = c")
    case True
    with Cons show ?thesis by (simp add: join_Cons split_not_Nil)
  next
    case False
    obtain w ws where "split c s = w # ws"
      using split_not_Nil[of c s] by (cases "split c s") auto
    with False Cons show ?thesis by (simp add: join_Cons_Cons)
  qed
qed

lemma length_split: "length (split c s) = Suc (length (filter (\<lambda>x. x = c) s))"
  by (induction s) (auto split: list.splits simp: split_not_Nil)

section \<open>Creating a post: properties\<close>

lemma connectOrCreate_name: "category_name (fst (connectOrCreate n cs)) = n"
  by (auto simp: connectOrCreate_def Let_def find_Some_iff split: option.splits)

lemma connectOrCreate_member: "fst (connectOrCreate n cs) \<in> set (snd (connectOrCreate n cs))"
  by (auto simp: connectOrCreate_def Let_def find_Some_iff split: option.splits)

lemma connectOrCreate_old:
  "n \<in> set (map category_name cs) \<Longrightarrow> snd (connectOrCreate n cs) = cs"
  by (auto simp: connectOrCreate_def Let_def find_None_iff split: option.splits)

lemma connectOrCreate_new:
  "n \<notin> set (map category_name cs) \<Longrightarrow>
   snd (connectOrCreate n cs) = cs @ [\<lparr> category_name = n \<rparr>]"
  by (auto simp: connectOrCreate_def Let_def find_Some_iff split: option.splits)

lemmas createNewBlog_unfold =
  createNewBlog_def protectedProcedure_def post_create_def Let_def

text \<open>What a successful call returns, field by field, and the store it leaves.\<close>

lemma createNewBlog_post:
  assumes "createNewBlog sch e c input s = Inr (r, s')"
  shows "post_id (fst (data r)) = new_id e"
    and "post_title (fst (data r)) = in_title input"
    and "post_image (fst (data r)) = or_null (in_image input)"
    and "post_slug (fst (data r)) =
           join ''-'' (split CHR '' '' (in_title input)) @ ''-'' @ string_of_int (date_now e)"
    and "post_category (fst (data r)) = in_category input"
    and "snd (data r) = fst (connectOrCreate (in_category input) (categories s))"
    and "status r = 201"
  using assms connectOrCreate_name[of "in_category input" "categories s"]
  by (auto simp: createNewBlog_unfold
      split: option.splits if_splits sum.splits prod.splits)

lemma createNewBlog_store:
  assumes "createNewBlog sch e c input s = Inr (r, s')"
  shows "s' = s\<lparr> categories := snd (connectOrCreate (in_category input) (categories s)),
             posts := posts s @ [fst (data r)],
             tags := createMany (new_id e) (split CHR '' '' (in_title input)) (tags s) \<rparr>"
  using assms
  by (auto simp: createNewBlog_unfold
      split: option.splits if_splits sum.splits prod.splits)

text \<open>The calls on the concrete store.\<close>

lemma string_of_int_ex:
  "string_of_int 1700000000000 = ''1700000000000''"
  "string_of_int 1700000000123 = ''1700000000123''"
  by (simp_all add: string_of_int_def digit_def)

lemmas ex_defs =
  ex_db_def ex_user_def ex_post_def ex_ctx_def no_unique_def ex_env_def ex_input_def
  ex_new_post_def ex_created_def ex_db_created_def ex_env2_def ex_input2_def
  ex_new_post2_def ex_created2_def ex_db_created2_def ex_input3_def

lemmas create_defs =
  createNewBlog_unfold connectOrCreate_def createMany_def or_null_def

lemma ex_create:
  "createNewBlog no_unique ex_env ex_ctx ex_input ex_db = Inr (ex_created, ex_db_created)"
  by (simp add: create_defs ex_defs string_of_int_ex)

lemma ex_create2:
  "createNewBlog no_unique ex_env2 ex_ctx ex_input2 ex_db = Inr (ex_created2, ex_db_created2)"
  by (simp add: create_defs ex_defs string_of_int_ex)

lemma ex_create3:
  "createNewBlog no_unique ex_env ex_ctx ex_input3 ex_db = Inr (ex_created, ex_db_created)"
  by (simp add: create_defs ex_defs string_of_int_ex)

lemma ex_create_unique:
  "createNewBlog \<lparr> slug_unique = False, tag_name_unique = True \<rparr> ex_env ex_ctx ex_input ex_db
     = Inl (PrismaError UniqueConstraint)"
  by (simp add: create_defs ex_defs string_of_int_ex)

text \<open>
  C1. When a call of \<^verbatim>\<open>createNewBlog\<close> stores a post, the slug of that post is the
  title with every space replaced by a hyphen, which is what splitting the title at
  spaces and joining the pieces with a hyphen gives, then a hyphen, then the server's
  clock in decimal. The store the call runs on does not enter the slug: nothing is
  looked up in it.
\<close>

theorem createNewBlog_slug:
  assumes "createNewBlog sch e c input s = Inr (r, s')"
  shows "post_slug (fst (data r)) =
           map (\<lambda>x. if x = CHR '' '' then CHR ''-'' else x) (in_title input)
             @ ''-'' @ string_of_int (date_now e)
         \<and> post_slug (fst (data r)) =
           join ''-'' (split CHR '' '' (in_title input)) @ ''-'' @ string_of_int (date_now e)
         \<and> posts s' = posts s @ [fst (data r)]"
  using createNewBlog_post(4)[OF assms] createNewBlog_store[OF assms]
    join_split[of "CHR ''-''" "CHR '' ''" "in_title input"]
  by simp

text \<open>
  On the concrete store, a title with two spaces in a row gets two hyphens, and a
  second post with the title of the first gets the slug the stored post already has.
\<close>

theorem createNewBlog_slug_witness:
  "createNewBlog no_unique ex_env2 ex_ctx ex_input2 ex_db = Inr (ex_created2, ex_db_created2)
   \<and> in_title ex_input2 = ''my  post'' \<and> date_now ex_env2 = 1700000000123
   \<and> post_slug (fst (data ex_created2)) = ''my--post-1700000000123''
   \<and> posts ex_db_created2 = [ex_post, fst (data ex_created2)]
   \<and> createNewBlog no_unique ex_env ex_ctx ex_input ex_db = Inr (ex_created, ex_db_created)
   \<and> post_slug (fst (data ex_created)) = ''hello-1700000000000''
   \<and> post_slug ex_post = ''hello-1700000000000''
   \<and> posts ex_db_created = [ex_post, fst (data ex_created)]"
  using ex_create ex_create2 createNewBlog_slug[OF ex_create] createNewBlog_slug[OF ex_create2]
  by (simp add: ex_defs)

text \<open>
  C3. When a call of \<^verbatim>\<open>createNewBlog\<close> succeeds, the new post is connected to a
  category row with the given name, which is in the store afterwards. If a row with
  that name existed, the table of categories is unchanged; if none did, exactly one row
  with that name is appended. Names that were distinct before are distinct after.
\<close>

theorem createNewBlog_category_upsert:
  assumes "createNewBlog sch e c input s = Inr (r, s')"
  shows "post_category (fst (data r)) = in_category input
       \<and> category_name (snd (data r)) = in_category input
       \<and> snd (data r) \<in> set (categories s')
       \<and> (in_category input \<in> set (map category_name (categories s)) \<longrightarrow>
            categories s' = categories s)
       \<and> (in_category input \<notin> set (map category_name (categories s)) \<longrightarrow>
            categories s' = categories s @ [\<lparr> category_name = in_category input \<rparr>])
       \<and> (distinct (map category_name (categories s)) \<longrightarrow>
            distinct (map category_name (categories s')))"
proof -
  let ?n = "in_category input" and ?cs = "categories s"
  have cs: "categories s' = snd (connectOrCreate ?n ?cs)"
    using createNewBlog_store[OF assms] by simp
  have c: "snd (data r) = fst (connectOrCreate ?n ?cs)"
    by (rule createNewBlog_post(6)[OF assms])
  have old: "?n \<in> set (map category_name ?cs) \<Longrightarrow> categories s' = ?cs"
    using cs connectOrCreate_old by simp
  have new: "?n \<notin> set (map category_name ?cs) \<Longrightarrow>
      categories s' = ?cs @ [\<lparr> category_name = ?n \<rparr>]"
    using cs connectOrCreate_new by simp
  have dist: "distinct (map category_name ?cs) \<Longrightarrow> distinct (map category_name (categories s'))"
    using old new by (cases "?n \<in> set (map category_name ?cs)") auto
  show ?thesis
    using createNewBlog_post(5)[OF assms] c cs connectOrCreate_name[of ?n ?cs]
      connectOrCreate_member[of ?n ?cs] old new dist
    by simp
qed

theorem createNewBlog_category_upsert_witness:
  "createNewBlog no_unique ex_env ex_ctx ex_input ex_db = Inr (ex_created, ex_db_created)
   \<and> in_category ex_input \<in> set (map category_name (categories ex_db))
   \<and> categories ex_db_created = categories ex_db
   \<and> createNewBlog no_unique ex_env2 ex_ctx ex_input2 ex_db = Inr (ex_created2, ex_db_created2)
   \<and> in_category ex_input2 \<notin> set (map category_name (categories ex_db))
   \<and> categories ex_db_created2 = categories ex_db @ [\<lparr> category_name = ''Life'' \<rparr>]
   \<and> distinct (map category_name (categories ex_db))
   \<and> distinct (map category_name (categories ex_db_created2))"
  using ex_create ex_create2 createNewBlog_category_upsert[OF ex_create]
    createNewBlog_category_upsert[OF ex_create2]
  by (simp add: ex_defs)

text \<open>
  C4, as the code has it. When a call of \<^verbatim>\<open>createNewBlog\<close> succeeds, the table of
  tags is the old table followed by one new row for every piece of the title split at
  single spaces, in order, each attached to the new post. The old rows are kept as
  they are, and none of them is attached to the new post.
\<close>

theorem createNewBlog_tags_created:
  assumes "createNewBlog sch e c input s = Inr (r, s')"
  shows "tags s' =
           tags s @ map (\<lambda>w. \<lparr> tag_name = w, tag_postId = Some (post_id (fst (data r))) \<rparr>)
                      (split CHR '' '' (in_title input))"
  using createNewBlog_post(1)[OF assms] createNewBlog_store[OF assms]
  by (simp add: createMany_def)

theorem createNewBlog_tags_created_witness:
  "createNewBlog no_unique ex_env2 ex_ctx ex_input2 ex_db = Inr (ex_created2, ex_db_created2)
   \<and> tags ex_db_created2 =
       tags ex_db @ [\<lparr> tag_name = ''my'', tag_postId = Some ''p2'' \<rparr>,
                     \<lparr> tag_name = [], tag_postId = Some ''p2'' \<rparr>,
                     \<lparr> tag_name = ''post'', tag_postId = Some ''p2'' \<rparr>]"
  using ex_create2 createNewBlog_tags_created[OF ex_create2]
  by (simp add: ex_defs)

text \<open>
  C4, as the claim states it, fails. The store holds a tag row named \<open>hello\<close>; a new
  post titled \<open>hello\<close> does not reuse it: afterwards there are two rows with that
  name. Where the schema declares the name unique, the same call is refused and writes
  no tag at all.
\<close>

theorem createNewBlog_tag_upsert_counterexample:
  "createNewBlog no_unique ex_env ex_ctx ex_input ex_db = Inr (ex_created, ex_db_created)
   \<and> map tag_name (tags ex_db) = [''hello'']
   \<and> map tag_name (tags ex_db_created) = [''hello'', ''hello'']
   \<and> createNewBlog \<lparr> slug_unique = False, tag_name_unique = True \<rparr> ex_env ex_ctx ex_input ex_db
       = Inl (PrismaError UniqueConstraint)"
  using ex_create ex_create_unique by (simp add: ex_defs)

text \<open>
  A caller whose session names no stored user gets the mapper's record-not-found
  error, whatever else would have failed.
\<close>

lemma createNewBlog_missing_user:
  assumes "ctx_session c = Some sess"
    and "session_user_id sess \<notin> set (map user_id (users s))"
  shows "createNewBlog sch e c input s = Inl (PrismaError RecordNotFound)"
  using assms by (simp add: createNewBlog_unfold)

lemma ex_create_missing_user:
  "createNewBlog \<lparr> slug_unique = True, tag_name_unique = True \<rparr> ex_env
     \<lparr> ctx_session = Some \<lparr> session_user_id = ''u9'' \<rparr> \<rparr> ex_input ex_db
     = Inl (PrismaError RecordNotFound)"
  using createNewBlog_missing_user[of "\<lparr> ctx_session = Some \<lparr> session_user_id = ''u9'' \<rparr> \<rparr>"
      "\<lparr> session_user_id = ''u9'' \<rparr>" ex_db]
  by (simp add: ex_db_def ex_user_def)

text \<open>
  Where the schema declares the name of a tag unique, no call succeeds whose title has
  a piece that is already the name of a stored tag, or the same piece twice.
\<close>

lemma createNewBlog_unique_tag_refused:
  assumes "tag_name_unique sch"
    and "\<not> distinct (split CHR '' '' (in_title input))
         \<or> set (split CHR '' '' (in_title input)) \<inter> set (map tag_name (tags s)) \<noteq> {}"
  shows "createNewBlog sch e c input s \<noteq> Inr (r, s')"
  using assms
  by (auto simp: createNewBlog_unfold split: option.splits if_splits sum.splits prod.splits)

text \<open>
  C10. When a call of \<^verbatim>\<open>createNewBlog\<close> stores a post, the image of that post is
  null if the input has no image or an empty one, and is the given string if that is
  not empty.
\<close>

theorem createNewBlog_image_or_null:
  assumes "createNewBlog sch e c input s = Inr (r, s')"
  shows "(in_image input = None \<or> in_image input = Some [] \<longrightarrow> post_image (fst (data r)) = None)
       \<and> (\<forall>x. in_image input = Some x \<and> x \<noteq> [] \<longrightarrow> post_image (fst (data r)) = Some x)
       \<and> fst (data r) \<in> set (posts s')"
  using createNewBlog_post(3)[OF assms] createNewBlog_store[OF assms]
  by (auto simp: or_null_def)

theorem createNewBlog_image_or_null_witness:
  "createNewBlog no_unique ex_env ex_ctx ex_input ex_db = Inr (ex_created, ex_db_created)
   \<and> in_image ex_input = Some [] \<and> post_image (fst (data ex_created)) = None
   \<and> createNewBlog no_unique ex_env ex_ctx ex_input3 ex_db = Inr (ex_created, ex_db_created)
   \<and> in_image ex_input3 = None
   \<and> createNewBlog no_unique ex_env2 ex_ctx ex_input2 ex_db = Inr (ex_created2, ex_db_created2)
   \<and> in_image ex_input2 = Some ''https://img.example/1.png''
   \<and> post_image (fst (data ex_created2)) = Some ''https://img.example/1.png''
   \<and> fst (data ex_created2) \<in> set (posts ex_db_created2)"
  using ex_create ex_create2 ex_create3 createNewBlog_image_or_null[OF ex_create]
    createNewBlog_image_or_null[OF ex_create2] createNewBlog_image_or_null[OF ex_create3]
  by (simp add: ex_defs)

section \<open>Deleting a post: properties\<close>

lemma find_post_Some:
  "i \<in> set (map post_id ps) \<Longrightarrow> \<exists>p. find (\<lambda>p. post_id p = i) ps = Some p"
  by (cases "find (\<lambda>p. post_id p = i) ps") (auto simp: find_None_iff)

lemma find_post_None:
  "i \<notin> set (map post_id ps) \<Longrightarrow> find (\<lambda>p. post_id p = i) ps = None"
  by (auto simp: find_None_iff)

lemmas delete_defs =
  deleteBlogByBlogId_def protectedProcedure_def post_delete_def refuses_def referential_def

text \<open>
  The resolver only deletes the post. Where the schema restricts the relation instead
  of cascading, a post that has comments cannot be deleted, and the store is left as
  it was.
\<close>

lemma deleteBlogByBlogId_restrict:
  "deleteBlogByBlogId restrict_all ex_ctx ''p0'' ex_db = Inl (PrismaError ForeignKeyConstraint)"
  by (simp add: delete_defs restrict_all_def ex_db_def ex_post_def ex_ctx_def)

text \<open>
  C2. With the relations cascading, a call of \<^verbatim>\<open>deleteBlogByBlogId\<close> by a caller
  with a session, for the identifier of a stored post, succeeds; afterwards the store
  holds no post with that identifier and no comment that refers to it, and every other
  post and comment is still there.
\<close>

theorem deleteBlogByBlogId_cascade:
  assumes "ctx_session c = Some sess" and "i \<in> set (map post_id (posts s))"
  shows "\<exists>r s'. deleteBlogByBlogId schema_on_delete c i s = Inr (r, s')
           \<and> posts s' = filter (\<lambda>p. post_id p \<noteq> i) (posts s)
           \<and> comments s' = filter (\<lambda>x. comment_postId x \<noteq> Some i) (comments s)
           \<and> i \<notin> set (map post_id (posts s'))
           \<and> Some i \<notin> set (map comment_postId (comments s'))"
proof -
  obtain p where p: "find (\<lambda>p. post_id p = i) (posts s) = Some p"
    using find_post_Some[OF assms(2)] by blast
  show ?thesis
    using assms(1) p by (auto simp: delete_defs schema_on_delete_def)
qed

theorem deleteBlogByBlogId_cascade_witness:
  "ctx_session ex_ctx = Some \<lparr> session_user_id = ''u1'' \<rparr>
   \<and> ''p0'' \<in> set (map post_id (posts ex_db_two))
   \<and> deleteBlogByBlogId schema_on_delete ex_ctx ''p0'' ex_db_two =
       Inr (\<lparr> status = 201, message = Some ''BLOG DELETED SUCCESSFULLY'', data = () \<rparr>,
            ex_db_two \<lparr> posts := [ex_new_post],
                        tags := [\<lparr> tag_name = ''hello'', tag_postId = Some ''p1'' \<rparr>],
                        comments := [\<lparr> comment_id = ''c2'', comment_postId = Some ''p1'' \<rparr>],
                        reactions := [] \<rparr>)"
proof -
  have h1: "ctx_session ex_ctx = Some \<lparr> session_user_id = ''u1'' \<rparr>"
    by (simp add: ex_ctx_def)
  have h2: "''p0'' \<in> set (map post_id (posts ex_db_two))"
    by (simp add: ex_db_two_def ex_defs)
  obtain r s' where del: "deleteBlogByBlogId schema_on_delete ex_ctx ''p0'' ex_db_two = Inr (r, s')"
    using deleteBlogByBlogId_cascade[OF h1 h2] by blast
  have "deleteBlogByBlogId schema_on_delete ex_ctx ''p0'' ex_db_two =
       Inr (\<lparr> status = 201, message = Some ''BLOG DELETED SUCCESSFULLY'', data = () \<rparr>,
            ex_db_two \<lparr> posts := [ex_new_post],
                        tags := [\<lparr> tag_name = ''hello'', tag_postId = Some ''p1'' \<rparr>],
                        comments := [\<lparr> comment_id = ''c2'', comment_postId = Some ''p1'' \<rparr>],
                        reactions := [] \<rparr>)"
    using del by (simp add: delete_defs schema_on_delete_def ex_db_two_def ex_defs)
  with h1 h2 show ?thesis by simp
qed

text \<open>
  C8. Whatever the schema, the session, the identifier and the store, a call of
  \<^verbatim>\<open>deleteBlogByBlogId\<close> never answers \<^verbatim>\<open>BAD_REQUEST\<close>: the delete of the mapper
  either fails or returns the deleted row, so the test of its result never fires. A
  caller with a session who names no stored post gets the mapper's record-not-found
  error, and every successful call has status 201.
\<close>

theorem deleteBlogByBlogId_guard_unreachable:
  "deleteBlogByBlogId od c i s \<noteq> Inl (TRPCError BAD_REQUEST)
   \<and> (ctx_session c \<noteq> None \<and> i \<notin> set (map post_id (posts s)) \<longrightarrow>
        deleteBlogByBlogId od c i s = Inl (PrismaError RecordNotFound))
   \<and> (\<forall>r s'. deleteBlogByBlogId od c i s = Inr (r, s') \<longrightarrow> status r = 201)"
  using find_post_None[of i "posts s"]
  by (auto simp: deleteBlogByBlogId_def protectedProcedure_def post_delete_def
      split: option.splits if_splits sum.splits)

theorem deleteBlogByBlogId_guard_unreachable_witness:
  "ctx_session ex_ctx \<noteq> None \<and> ''p7'' \<notin> set (map post_id (posts ex_db))
   \<and> deleteBlogByBlogId schema_on_delete ex_ctx ''p7'' ex_db = Inl (PrismaError RecordNotFound)
   \<and> deleteBlogByBlogId schema_on_delete ex_ctx ''p0'' ex_db =
       Inr (\<lparr> status = 201, message = Some ''BLOG DELETED SUCCESSFULLY'', data = () \<rparr>,
            ex_db \<lparr> posts := [], tags := [], comments := [], reactions := [] \<rparr>)
   \<and> deleteBlogByBlogId restrict_all ex_ctx ''p0'' ex_db \<noteq> Inl (TRPCError BAD_REQUEST)"
proof -
  have h: "ctx_session ex_ctx \<noteq> None \<and> ''p7'' \<notin> set (map post_id (posts ex_db))"
    by (simp add: ex_ctx_def ex_db_def ex_post_def)
  have missing:
    "deleteBlogByBlogId schema_on_delete ex_ctx ''p7'' ex_db = Inl (PrismaError RecordNotFound)"
    using h deleteBlogByBlogId_guard_unreachable[of schema_on_delete ex_ctx "''p7''" ex_db]
    by blast
  have stored:
    "deleteBlogByBlogId schema_on_delete ex_ctx ''p0'' ex_db =
       Inr (\<lparr> status = 201, message = Some ''BLOG DELETED SUCCESSFULLY'', data = () \<rparr>,
            ex_db \<lparr> posts := [], tags := [], comments := [], reactions := [] \<rparr>)"
    by (simp add: delete_defs schema_on_delete_def ex_db_def ex_post_def ex_ctx_def)
  have refused:
    "deleteBlogByBlogId restrict_all ex_ctx ''p0'' ex_db \<noteq> Inl (TRPCError BAD_REQUEST)"
    using deleteBlogByBlogId_guard_unreachable[of restrict_all ex_ctx "''p0''" ex_db]
    by blast
  show ?thesis using h missing stored refused by blast
qed

section \<open>The router: properties\<close>


text \<open>
  C6. Every procedure of the router is declared with the protected builder. A call
  without a session is answered \<^verbatim>\<open>UNAUTHORIZED\<close> by every entry of the router,
  whatever its resolver, and by each of the seven procedures, whatever the input and
  the store.
\<close>

theorem blogRouter_protected:
  "list_all (\<lambda>(n, b, k). b = ProtectedProcedure) blogRouter
   \<and> (ctx_session c = None \<longrightarrow>
        (\<forall>(n, b, k) \<in> set blogRouter. \<forall>resolver. call b c resolver = Inl (TRPCError UNAUTHORIZED))
        \<and> createNewBlog sch e c cin s = Inl (TRPCError UNAUTHORIZED)
        \<and> getAllBlogs c s = Inl (TRPCError UNAUTHORIZED)
        \<and> getBlogsByCategory ce c cat s = Inl (TRPCError UNAUTHORIZED)
        \<and> getBlogById c i s = Inl (TRPCError UNAUTHORIZED)
        \<and> getBlogByUserId c u s = Inl (TRPCError UNAUTHORIZED)
        \<and> updateBlogById c uin s = Inl (TRPCError UNAUTHORIZED)
        \<and> deleteBlogByBlogId od c i s = Inl (TRPCError UNAUTHORIZED))"
  by (simp add: blogRouter_def call_def protectedProcedure_def createNewBlog_def
      getAllBlogs_def getBlogsByCategory_def getBlogById_def getBlogByUserId_def
      updateBlogById_def deleteBlogByBlogId_def)

theorem blogRouter_protected_witness:
  "ctx_session \<lparr> ctx_session = None \<rparr> = None
   \<and> (''getAllBlogs'', ProtectedProcedure, Query) \<in> set blogRouter
   \<and> call ProtectedProcedure \<lparr> ctx_session = None \<rparr> (\<lambda>sess. Inr sess) = Inl (TRPCError UNAUTHORIZED)
   \<and> createNewBlog no_unique ex_env \<lparr> ctx_session = None \<rparr> ex_input ex_db = Inl (TRPCError UNAUTHORIZED)
   \<and> getAllBlogs \<lparr> ctx_session = None \<rparr> ex_db = Inl (TRPCError UNAUTHORIZED)
   \<and> deleteBlogByBlogId schema_on_delete \<lparr> ctx_session = None \<rparr> ''p0'' ex_db = Inl (TRPCError UNAUTHORIZED)"
  using blogRouter_protected[of "\<lparr> ctx_session = None \<rparr>" no_unique ex_env ex_input ex_db
      ex_enum "''Tech''" "''p0''" "''u1''" "\<lparr> upd_id = ''p0'', upd_rest = (\<lambda>p. p) \<rparr>"
      schema_on_delete]
  by (auto simp: blogRouter_def)

section \<open>Reading posts: properties\<close>

lemma orderBy_sorted:
  "sorted_wrt (\<lambda>a b. post_createdAt b \<le> post_createdAt a) (orderBy_createdAt_desc ps)"
proof -
  have "sorted (map (\<lambda>p. - post_createdAt p) (orderBy_createdAt_desc ps))"
    unfolding orderBy_createdAt_desc_def by (rule sorted_sort_key)
  then show ?thesis by (simp add: sorted_map)
qed

lemma orderBy_mset: "mset (orderBy_createdAt_desc ps) = mset ps"
  by (simp add: orderBy_createdAt_desc_def)

lemma orderBy_set: "set (orderBy_createdAt_desc ps) = set ps"
  by (simp add: orderBy_createdAt_desc_def)

lemma orderBy_length: "length (orderBy_createdAt_desc ps) = length ps"
  by (simp add: orderBy_createdAt_desc_def)

text \<open>
  In a list in order, an element is among the first \<open>n\<close> or comes after each of them.
\<close>

lemma take_or_later:
  assumes "sorted_wrt R xs" and "x \<in> set xs"
  shows "x \<in> set (take n xs) \<or> (\<forall>y \<in> set (take n xs). R y x)"
proof -
  have "sorted_wrt R (take n xs @ drop n xs)" using assms(1) by simp
  then have later: "\<forall>y \<in> set (take n xs). \<forall>z \<in> set (drop n xs). R y z"
    unfolding sorted_wrt_append by blast
  have "x \<in> set (take n xs) \<or> x \<in> set (drop n xs)"
    using assms(2) by (metis Un_iff append_take_drop_id set_append)
  with later show ?thesis by blast
qed

lemma findMany_sorted:
  "sorted_wrt (\<lambda>a b. post_createdAt b \<le> post_createdAt a) (findMany wh tk s)"
  by (cases tk) (simp_all add: findMany_def orderBy_sorted sorted_wrt_take)

lemma findMany_all: "mset (findMany wh None s) = mset (filter wh (posts s))"
  by (simp add: findMany_def orderBy_mset)

lemma findMany_take_length:
  "length (findMany wh (Some n) s) = min n (length (filter wh (posts s)))"
  by (simp add: findMany_def orderBy_length min.commute)

lemma findMany_take_subset: "set (findMany wh (Some n) s) \<subseteq> {p \<in> set (posts s). wh p}"
  using set_take_subset[of n "orderBy_createdAt_desc (filter wh (posts s))"]
  by (auto simp: findMany_def orderBy_set)

lemma findMany_take_recent:
  assumes "p \<in> set (posts s)" and "wh p"
  shows "p \<in> set (findMany wh (Some n) s)
         \<or> (\<forall>q \<in> set (findMany wh (Some n) s). post_createdAt p \<le> post_createdAt q)"
proof -
  have "p \<in> set (orderBy_createdAt_desc (filter wh (posts s)))"
    using assms by (simp add: orderBy_set)
  from take_or_later[OF orderBy_sorted this, of n] show ?thesis
    by (simp add: findMany_def)
qed

text \<open>
  The posts of a category are those that carry its name, provided the category exists.
\<close>

lemma where_category_iff:
  "where_category s n p \<longleftrightarrow> post_category p = n \<and> n \<in> set (map category_name (categories s))"
  by (auto simp: where_category_def category_of_def find_Some_iff find_None_iff
      split: option.splits)

lemma summary_sorted:
  "sorted_wrt (\<lambda>a b. post_createdAt b \<le> post_createdAt a) ps \<Longrightarrow>
   sorted_wrt (\<lambda>a b. bs_createdAt b \<le> bs_createdAt a) (map (select_summary s) ps)"
  by (simp add: sorted_wrt_map select_summary_def)

lemma mset_take_subset: "mset (take n xs) \<subseteq># mset xs"
proof -
  have "mset xs = mset (take n xs) + mset (drop n xs)"
    by (metis append_take_drop_id mset_append)
  then show ?thesis by simp
qed

lemma findMany_take_mset:
  "mset (findMany wh (Some n) s) \<subseteq># mset (filter wh (posts s))"
proof -
  have "mset (take n (orderBy_createdAt_desc (filter wh (posts s))))
          \<subseteq># mset (orderBy_createdAt_desc (filter wh (posts s)))"
    by (rule mset_take_subset)
  then show ?thesis by (simp add: findMany_def orderBy_mset)
qed

lemma where_category_filter:
  "filter (where_category s n) ps =
   filter (\<lambda>p. post_category p = n \<and> n \<in> set (map category_name (categories s))) ps"
  by (rule filter_cong) (simp_all add: where_category_iff)

lemma getBlogsByCategory_rejects:
  assumes "ctx_session c = Some sess" and "n \<notin> set ce"
  shows "getBlogsByCategory ce c n s = Inl (TRPCError BAD_REQUEST)"
  using assms by (simp add: getBlogsByCategory_def protectedProcedure_def)

lemma getBlogsByCategory_result:
  assumes "ctx_session c = Some sess" and "n \<in> set ce"
  shows "\<exists>r. getBlogsByCategory ce c n s = Inr r
           \<and> status r = 200
           \<and> length (data r) \<le> 10
           \<and> length (data r) =
               min 10 (length (filter (\<lambda>p. post_category p = n
                                          \<and> n \<in> set (map category_name (categories s))) (posts s)))
           \<and> mset (data r) \<subseteq>#
               mset (map (select_summary s)
                      (filter (\<lambda>p. post_category p = n
                                    \<and> n \<in> set (map category_name (categories s))) (posts s)))
           \<and> sorted_wrt (\<lambda>a b. bs_createdAt b \<le> bs_createdAt a) (data r)
           \<and> (\<forall>p \<in> set (posts s).
                 post_category p = n \<and> n \<in> set (map category_name (categories s)) \<longrightarrow>
                 select_summary s p \<in> set (data r)
                 \<or> (\<forall>b \<in> set (data r). post_createdAt p \<le> bs_createdAt b))"
proof -
  let ?rows = "findMany (where_category s n) (Some 10) s"
  let ?in_cat = "\<lambda>p. post_category p = n \<and> n \<in> set (map category_name (categories s))"
  have r: "getBlogsByCategory ce c n s =
             Inr \<lparr> status = 200, message = None, data = map (select_summary s) ?rows \<rparr>"
    using assms by (simp add: getBlogsByCategory_def protectedProcedure_def)
  have len: "length ?rows = min 10 (length (filter ?in_cat (posts s)))"
    using findMany_take_length[of "where_category s n" 10 s]
    by (simp only: where_category_filter)
  have "mset ?rows \<subseteq># mset (filter ?in_cat (posts s))"
    using findMany_take_mset[of "where_category s n" 10 s]
    by (simp only: where_category_filter)
  then have "image_mset (select_summary s) (mset ?rows)
               \<subseteq># image_mset (select_summary s) (mset (filter ?in_cat (posts s)))"
    by (rule image_mset_subseteq_mono)
  then have sub: "mset (map (select_summary s) ?rows)
               \<subseteq># mset (map (select_summary s) (filter ?in_cat (posts s)))"
    by simp
  have srt: "sorted_wrt (\<lambda>a b. bs_createdAt b \<le> bs_createdAt a) (map (select_summary s) ?rows)"
    by (rule summary_sorted[OF findMany_sorted])
  have rec: "\<forall>p \<in> set (posts s). ?in_cat p \<longrightarrow>
                 select_summary s p \<in> set (map (select_summary s) ?rows)
                 \<or> (\<forall>b \<in> set (map (select_summary s) ?rows). post_createdAt p \<le> bs_createdAt b)"
  proof (intro ballI impI)
    fix p assume "p \<in> set (posts s)" and "?in_cat p"
    then have "p \<in> set (posts s)" and "where_category s n p"
      by (simp_all add: where_category_iff)
    then have "p \<in> set ?rows \<or> (\<forall>q \<in> set ?rows. post_createdAt p \<le> post_createdAt q)"
      by (rule findMany_take_recent[where wh = "where_category s n"])
    then show "select_summary s p \<in> set (map (select_summary s) ?rows)
          \<or> (\<forall>b \<in> set (map (select_summary s) ?rows). post_createdAt p \<le> bs_createdAt b)"
      by (auto simp: select_summary_def)
  qed
  let ?r = "\<lparr> status = 200, message = None, data = map (select_summary s) ?rows \<rparr>"
  have d: "data ?r = map (select_summary s) ?rows" and st: "status ?r = 200"
    by simp_all
  have "getBlogsByCategory ce c n s = Inr ?r
           \<and> status ?r = 200
           \<and> length (data ?r) \<le> 10
           \<and> length (data ?r) = min 10 (length (filter ?in_cat (posts s)))
           \<and> mset (data ?r) \<subseteq># mset (map (select_summary s) (filter ?in_cat (posts s)))
           \<and> sorted_wrt (\<lambda>a b. bs_createdAt b \<le> bs_createdAt a) (data ?r)
           \<and> (\<forall>p \<in> set (posts s). ?in_cat p \<longrightarrow>
                 select_summary s p \<in> set (data ?r)
                 \<or> (\<forall>b \<in> set (data ?r). post_createdAt p \<le> bs_createdAt b))"
    unfolding d st using r len sub srt rec by simp
  then show ?thesis by (rule exI)
qed

lemma getAllBlogs_result:
  assumes "ctx_session c = Some sess"
  shows "\<exists>r. getAllBlogs c s = Inr r
           \<and> mset (data r) = mset (map (select_summary s) (posts s))
           \<and> sorted_wrt (\<lambda>a b. bs_createdAt b \<le> bs_createdAt a) (data r)"
proof -
  let ?rows = "findMany (\<lambda>p. True) None s"
  have r: "getAllBlogs c s =
             Inr \<lparr> status = 200, message = None, data = map (select_summary s) ?rows \<rparr>"
    using assms by (simp add: getAllBlogs_def protectedProcedure_def)
  have "mset ?rows = mset (posts s)"
    using findMany_all[of "\<lambda>p. True" s] by simp
  then have all: "mset (map (select_summary s) ?rows) = mset (map (select_summary s) (posts s))"
    by (metis mset_map)
  have srt: "sorted_wrt (\<lambda>a b. bs_createdAt b \<le> bs_createdAt a) (map (select_summary s) ?rows)"
    by (rule summary_sorted[OF findMany_sorted])
  show ?thesis using r all srt by simp
qed

lemma getBlogByUserId_result:
  assumes "ctx_session c = Some sess"
  shows "\<exists>r. getBlogByUserId c u s = Inr r
           \<and> mset (map bc_post (data r)) = mset (filter (\<lambda>p. post_authorId p = u) (posts s))
           \<and> sorted_wrt (\<lambda>a b. post_createdAt (bc_post b) \<le> post_createdAt (bc_post a)) (data r)"
proof -
  let ?rows = "findMany (\<lambda>p. post_authorId p = u) None s"
  let ?f = "\<lambda>p. \<lparr> bc_post = p, bc_count_reaction = count_reaction s p,
                   bc_count_comment = count_comment s p \<rparr>"
  let ?r = "\<lparr> status = 200, message = Some ''BLOGS FOUND SUCCESSFULLY'', data = map ?f ?rows \<rparr>"
  have r: "getBlogByUserId c u s = Inr ?r"
    using assms by (simp add: getBlogByUserId_def protectedProcedure_def)
  have d: "data ?r = map ?f ?rows"
    by simp
  have proj: "map bc_post (map ?f ?rows) = ?rows"
    by (simp add: comp_def)
  have all: "mset (map bc_post (map ?f ?rows)) = mset (filter (\<lambda>p. post_authorId p = u) (posts s))"
    unfolding proj by (rule findMany_all)
  have srt: "sorted_wrt (\<lambda>a b. post_createdAt (bc_post b) \<le> post_createdAt (bc_post a)) (map ?f ?rows)"
    using findMany_sorted[of "\<lambda>p. post_authorId p = u" None s] by (simp add: sorted_wrt_map)
  have "getBlogByUserId c u s = Inr ?r
          \<and> mset (map bc_post (data ?r)) = mset (filter (\<lambda>p. post_authorId p = u) (posts s))
          \<and> sorted_wrt (\<lambda>a b. post_createdAt (bc_post b) \<le> post_createdAt (bc_post a)) (data ?r)"
    unfolding d using r all srt by blast
  then show ?thesis by (rule exI)
qed

text \<open>
  C9. For a caller with a session, \<^verbatim>\<open>getBlogsByCategory\<close> refuses a name that is
  not a value of the enumeration, and for a value returns at most ten posts: as many as
  there are posts whose category has that name, up to ten, each of them one of those
  posts and none more often than it is stored, most recent first, and every post of the
  category that is left out is no more recent than any returned one.
  \<^verbatim>\<open>getAllBlogs\<close> returns every post of the store and \<^verbatim>\<open>getBlogByUserId\<close> every post
  of the author, each once, most recent first, with no limit.
\<close>

theorem getBlogsByCategory_take_10:
  assumes "ctx_session c = Some sess"
  shows "(n \<notin> set ce \<longrightarrow> getBlogsByCategory ce c n s = Inl (TRPCError BAD_REQUEST))
       \<and> (n \<in> set ce \<longrightarrow>
           (\<exists>r. getBlogsByCategory ce c n s = Inr r
             \<and> status r = 200
             \<and> length (data r) \<le> 10
             \<and> length (data r) =
                 min 10 (length (filter (\<lambda>p. post_category p = n
                                            \<and> n \<in> set (map category_name (categories s))) (posts s)))
             \<and> mset (data r) \<subseteq>#
                 mset (map (select_summary s)
                        (filter (\<lambda>p. post_category p = n
                                      \<and> n \<in> set (map category_name (categories s))) (posts s)))
             \<and> sorted_wrt (\<lambda>a b. bs_createdAt b \<le> bs_createdAt a) (data r)
             \<and> (\<forall>p \<in> set (posts s).
                   post_category p = n \<and> n \<in> set (map category_name (categories s)) \<longrightarrow>
                   select_summary s p \<in> set (data r)
                   \<or> (\<forall>b \<in> set (data r). post_createdAt p \<le> bs_createdAt b))))
       \<and> (\<exists>r. getAllBlogs c s = Inr r
           \<and> mset (data r) = mset (map (select_summary s) (posts s))
           \<and> sorted_wrt (\<lambda>a b. bs_createdAt b \<le> bs_createdAt a) (data r))
       \<and> (\<exists>r. getBlogByUserId c u s = Inr r
           \<and> mset (map bc_post (data r)) = mset (filter (\<lambda>p. post_authorId p = u) (posts s))
           \<and> sorted_wrt (\<lambda>a b. post_createdAt (bc_post b) \<le> post_createdAt (bc_post a)) (data r))"
proof (intro conjI impI)
  assume "n \<notin> set ce"
  then show "getBlogsByCategory ce c n s = Inl (TRPCError BAD_REQUEST)"
    by (rule getBlogsByCategory_rejects[OF assms])
next
  assume "n \<in> set ce"
  then show "\<exists>r. getBlogsByCategory ce c n s = Inr r
             \<and> status r = 200
             \<and> length (data r) \<le> 10
             \<and> length (data r) =
                 min 10 (length (filter (\<lambda>p. post_category p = n
                                            \<and> n \<in> set (map category_name (categories s))) (posts s)))
             \<and> mset (data r) \<subseteq>#
                 mset (map (select_summary s)
                        (filter (\<lambda>p. post_category p = n
                                      \<and> n \<in> set (map category_name (categories s))) (posts s)))
             \<and> sorted_wrt (\<lambda>a b. bs_createdAt b \<le> bs_createdAt a) (data r)
             \<and> (\<forall>p \<in> set (posts s).
                   post_category p = n \<and> n \<in> set (map category_name (categories s)) \<longrightarrow>
                   select_summary s p \<in> set (data r)
                   \<or> (\<forall>b \<in> set (data r). post_createdAt p \<le> bs_createdAt b))"
    by (rule getBlogsByCategory_result[OF assms])
next
  show "\<exists>r. getAllBlogs c s = Inr r
           \<and> mset (data r) = mset (map (select_summary s) (posts s))
           \<and> sorted_wrt (\<lambda>a b. bs_createdAt b \<le> bs_createdAt a) (data r)"
    by (rule getAllBlogs_result[OF assms])
next
  show "\<exists>r. getBlogByUserId c u s = Inr r
           \<and> mset (map bc_post (data r)) = mset (filter (\<lambda>p. post_authorId p = u) (posts s))
           \<and> sorted_wrt (\<lambda>a b. post_createdAt (bc_post b) \<le> post_createdAt (bc_post a)) (data r)"
    by (rule getBlogByUserId_result[OF assms])
qed

text \<open>
  On the concrete store: the ten newest of the twelve posts of the first category, and
  none of the second although one of those is the newest of all; both posts of the
  second category; nothing for a value of the enumeration that no category has; a
  refusal for a name outside the enumeration; all fourteen posts; and the two posts of
  the second author.
\<close>

lemmas query_defs =
  getBlogsByCategory_def getAllBlogs_def getBlogByUserId_def protectedProcedure_def
  findMany_def orderBy_createdAt_desc_def where_category_def category_of_def
  select_summary_def count_comment_def count_reaction_def

lemmas many_defs =
  ex_db_many_def ex_life_posts_def ex_user2_def ex_enum_def ex_db_def ex_post_def
  ex_user_def ex_ctx_def string_of_int_def digit_def

lemma ex_by_category_ids:
  assumes "getBlogsByCategory ex_enum ex_ctx ''Tech'' ex_db_many = Inr r"
  shows "map bs_id (data r) =
           [''p11'', ''p10'', ''p9'', ''p8'', ''p7'', ''p6'', ''p5'', ''p4'', ''p3'', ''p2'']"
  using assms by (auto simp: query_defs many_defs)

lemma ex_by_category2:
  "\<exists>r. getBlogsByCategory ex_enum ex_ctx ''Life'' ex_db_many = Inr r
       \<and> map bs_id (data r) = [''q0'', ''q1'']"
  by (simp add: query_defs many_defs)

lemma ex_by_category3:
  "\<exists>r. getBlogsByCategory ex_enum ex_ctx ''Travel'' ex_db_many = Inr r \<and> data r = []"
  by (simp add: query_defs many_defs)

lemma ex_all:
  "\<exists>r. getAllBlogs ex_ctx ex_db_many = Inr r
       \<and> map bs_id (data r) =
           [''q0'', ''p11'', ''p10'', ''p9'', ''p8'', ''p7'', ''p6'', ''p5'', ''p4'', ''q1'',
            ''p3'', ''p2'', ''p1'', ''p0'']"
  by (simp add: query_defs many_defs)

lemma ex_by_user:
  "\<exists>r. getBlogByUserId ex_ctx ''u2'' ex_db_many = Inr r
       \<and> map (\<lambda>b. post_id (bc_post b)) (data r) = [''q0'', ''q1'']"
  by (simp add: query_defs many_defs)

theorem getBlogsByCategory_take_10_witness:
  "ctx_session ex_ctx = Some \<lparr> session_user_id = ''u1'' \<rparr>
   \<and> ''Nowhere'' \<notin> set ex_enum
   \<and> getBlogsByCategory ex_enum ex_ctx ''Nowhere'' ex_db_many = Inl (TRPCError BAD_REQUEST)
   \<and> ''Tech'' \<in> set ex_enum
   \<and> (\<exists>r. getBlogsByCategory ex_enum ex_ctx ''Tech'' ex_db_many = Inr r
         \<and> length (data r) \<le> 10
         \<and> map bs_id (data r) =
             [''p11'', ''p10'', ''p9'', ''p8'', ''p7'', ''p6'', ''p5'', ''p4'', ''p3'', ''p2''])
   \<and> (\<exists>r. getBlogsByCategory ex_enum ex_ctx ''Life'' ex_db_many = Inr r
         \<and> map bs_id (data r) = [''q0'', ''q1''])
   \<and> (\<exists>r. getBlogsByCategory ex_enum ex_ctx ''Travel'' ex_db_many = Inr r \<and> data r = [])
   \<and> (\<exists>r. getAllBlogs ex_ctx ex_db_many = Inr r
         \<and> map bs_id (data r) =
           [''q0'', ''p11'', ''p10'', ''p9'', ''p8'', ''p7'', ''p6'', ''p5'', ''p4'', ''q1'',
            ''p3'', ''p2'', ''p1'', ''p0''])
   \<and> (\<exists>r. getBlogByUserId ex_ctx ''u2'' ex_db_many = Inr r
         \<and> map (\<lambda>b. post_id (bc_post b)) (data r) = [''q0'', ''q1''])"
proof -
  have h: "ctx_session ex_ctx = Some \<lparr> session_user_id = ''u1'' \<rparr>"
    by (simp add: ex_ctx_def)
  have out: "''Nowhere'' \<notin> set ex_enum" and inside: "''Tech'' \<in> set ex_enum"
    by (simp_all add: ex_enum_def)
  note refused =
    getBlogsByCategory_take_10[OF h, of "''Nowhere''" ex_enum ex_db_many "''u2''",
      THEN conjunct1, THEN mp, OF out]
  note tech_inst =
    getBlogsByCategory_take_10[OF h, of "''Tech''" ex_enum ex_db_many "''u2''",
      THEN conjunct2, THEN conjunct1, THEN mp, OF inside]
  from tech_inst
  have "\<exists>r. getBlogsByCategory ex_enum ex_ctx ''Tech'' ex_db_many = Inr r \<and> length (data r) \<le> 10"
    apply (elim exE conjE)
    apply (rule exI, rule conjI)
     apply assumption+
    done
  then obtain r where r: "getBlogsByCategory ex_enum ex_ctx ''Tech'' ex_db_many = Inr r"
    and ten: "length (data r) \<le> 10"
    by (elim exE conjE)
  note ids = ex_by_category_ids[OF r]
  have tech: "\<exists>r. getBlogsByCategory ex_enum ex_ctx ''Tech'' ex_db_many = Inr r
         \<and> length (data r) \<le> 10
         \<and> map bs_id (data r) =
             [''p11'', ''p10'', ''p9'', ''p8'', ''p7'', ''p6'', ''p5'', ''p4'', ''p3'', ''p2'']"
    apply (rule exI[of _ r])
    apply (rule conjI, rule r, rule conjI, rule ten, rule ids)
    done
  show ?thesis
    apply (rule conjI, rule h)
    apply (rule conjI, rule out)
    apply (rule conjI, rule refused)
    apply (rule conjI, rule inside)
    apply (rule conjI, rule tech)
    apply (rule conjI, rule ex_by_category2)
    apply (rule conjI, rule ex_by_category3)
    apply (rule conjI, rule ex_all)
    apply (rule ex_by_user)
    done
qed

end
